theory Spec2Isabelle
  imports Main
begin

section \<open>JavaScript values\<close>

text \<open>
  The values that flow through the store and the remote client: JSON data, \<open>undefined\<close>
  and \<open>null\<close>. The numbers are the integers (identifiers, page numbers, millisecond
  timestamps): \<open>JNum n\<close> is the Number an integer literal \<open>n\<close> denotes, which is \<open>n\<close> itself
  for every safe integer (below \<open>2^53\<close> in magnitude). Fractional numbers and \<open>NaN\<close> are not
  values of this type; the one place where the code computes \<open>NaN\<close> (a subtraction from
  \<open>undefined\<close>) is written out where it occurs.
\<close>

datatype jsval =
    JUndefined
  | JNull
  | JBool bool
  | JNum int
  | JStr string
  | JArr "jsval list"
  | JObj "(string \<times> jsval) list"

text \<open>Truthiness, as \<open>!x\<close>, \<open>x && y\<close> and \<open>if (x)\<close> test it.\<close>

fun truthy :: "jsval \<Rightarrow> bool" where
  "truthy JUndefined = False"
| "truthy JNull = False"
| "truthy (JBool b) = b"
| "truthy (JNum n) = (n \<noteq> 0)"
| "truthy (JStr s) = (s \<noteq> [])"
| "truthy (JArr xs) = True"
| "truthy (JObj kvs) = True"

text \<open>String conversion, as a template literal and \<open>URLSearchParams.append\<close> apply it.\<close>

definition digit_char :: "nat \<Rightarrow> char" where
  "digit_char d =
     (if d = 0 then CHR ''0'' else if d = 1 then CHR ''1'' else if d = 2 then CHR ''2''
      else if d = 3 then CHR ''3'' else if d = 4 then CHR ''4'' else if d = 5 then CHR ''5''
      else if d = 6 then CHR ''6'' else if d = 7 then CHR ''7'' else if d = 8 then CHR ''8''
      else CHR ''9'')"

fun digits :: "nat \<Rightarrow> string" where
  "digits n =
     (if n < 10 then [digit_char n] else digits (n div 10) @ [digit_char (n mod 10)])"

text \<open>
  \<open>Number::toString\<close> on an integer. A safe integer prints as its digits. A larger one is
  first the double nearest to it (ties to the even mantissa, \<open>Infinity\<close> from \<open>2^1024\<close>), and
  a double prints with the fewest significant digits that still denote it, the closest such
  digits if there are several: followed by zeros up to 21 digits, in exponent form beyond.
\<close>

fun bit_length :: "nat \<Rightarrow> nat" where
  "bit_length n = (if n = 0 then 0 else Suc (bit_length (n div 2)))"

definition to_double :: "nat \<Rightarrow> nat option" where
  "to_double a =
     (let e = bit_length a
      in if e \<le> 53 then Some a
         else (let ulp = 2 ^ (e - 53); q = a div ulp; r = a mod ulp;
                   q' = (if ulp < 2 * r \<or> (2 * r = ulp \<and> odd q) then q + 1 else q);
                   v = q' * ulp
               in if 2 ^ 1024 \<le> v then None else Some v))"

definition nearer :: "nat \<Rightarrow> nat \<Rightarrow> nat \<Rightarrow> nat \<Rightarrow> nat" where
  "nearer m p lo hi =
     (if m - lo < hi - m then lo
      else if hi - m < m - lo then hi
      else if even (lo div p) then lo else hi)"

text \<open>
  The fewest significant digits: for \<open>k = 1, 2, ...\<close> the two multiples of \<open>10^(nd - k)\<close>
  around the double \<open>m\<close> (of \<open>nd\<close> digits) are tried; the first \<open>k\<close> at which one of them
  denotes \<open>m\<close> gives the digits.
\<close>

fun shortest :: "nat \<Rightarrow> nat \<Rightarrow> nat list \<Rightarrow> nat" where
  "shortest m nd [] = m"
| "shortest m nd (k # ks) =
     (let p = 10 ^ (nd - k); lo = (m div p) * p; hi = lo + p;
          lo_ok = (to_double lo = Some m); hi_ok = (to_double hi = Some m)
      in if lo_ok \<and> hi_ok then nearer m p lo hi
         else if lo_ok then lo
         else if hi_ok then hi
         else shortest m nd ks)"

definition strip_zeros :: "string \<Rightarrow> string" where
  "strip_zeros ds = rev (dropWhile (\<lambda>c. c = CHR ''0'') (rev ds))"

definition double_string :: "nat \<Rightarrow> string" where
  "double_string m =
     (let nd = length (digits m);
          ds = digits (shortest m nd [1 ..< Suc nd]);
          n = length ds;
          sig = strip_zeros ds
      in if n \<le> 21 then ds
         else if length sig = 1 then sig @ ''e+'' @ digits (n - 1)
         else hd sig # ''.'' @ tl sig @ ''e+'' @ digits (n - 1))"

definition number_string :: "int \<Rightarrow> string" where
  "number_string i =
     (let a = nat \<bar>i\<bar>; sign = (if i < 0 then ''-'' else [])
      in if a < 2 ^ 53 then sign @ digits a
         else (case to_double a of
                 None \<Rightarrow> sign @ ''Infinity''
               | Some m \<Rightarrow> sign @ double_string m))"

fun join_with :: "string \<Rightarrow> string list \<Rightarrow> string" where
  "join_with sep [] = []"
| "join_with sep [x] = x"
| "join_with sep (x # y # ys) = x @ sep @ join_with sep (y # ys)"

fun js_string :: "jsval \<Rightarrow> string" where
  "js_string JUndefined = ''undefined''"
| "js_string JNull = ''null''"
| "js_string (JBool b) = (if b then ''true'' else ''false'')"
| "js_string (JNum n) = number_string n"
| "js_string (JStr s) = s"
| "js_string (JArr xs) =
     join_with '','' (map (\<lambda>x. if x = JUndefined \<or> x = JNull then [] else js_string x) xs)"
| "js_string (JObj kvs) = ''[object Object]''"

text \<open>A thrown \<open>Error\<close> object: the name of its class and its \<open>message\<close>.\<close>

datatype js_error = JsError (name: string) (message: string)

section \<open>The remote client (\<open>movieService.js\<close>)\<close>

subsection \<open>\<open>TMDBApiBase\<close>: the constructor's constants and the URL of \<open>makeRequest\<close>\<close>

definition baseUrl :: string where
  "baseUrl = ''https://api.themoviedb.org/3''"

definition imageBaseUrl :: string where
  "imageBaseUrl = ''https://image.tmdb.org/t/p''"

text \<open>
  \<open>makeRequest\<close> builds a \<open>URL\<close> object from \<open>baseUrl\<close> and the endpoint and appends to its
  \<open>searchParams\<close>. The model keeps the two parts the code works on: the address without the
  query, and the list of name/value pairs of \<open>searchParams\<close> in the order of the \<open>append\<close>
  calls (the endpoints of this client carry no query of their own). Percent-encoding the
  pairs into one string is the platform's \<open>URL\<close> serializer and is not modelled.
\<close>

record url =
  address :: string
  searchParams :: "(string \<times> string) list"

text \<open>
  The \<open>params\<close> object is the list of its own properties in the order of \<open>Object.keys\<close>.
  The body of the \<open>forEach\<close>: a pair is appended unless the value is \<open>undefined\<close> or \<open>null\<close>.
\<close>

fun forEach_key :: "(string \<times> jsval) list \<Rightarrow> (string \<times> string) list \<Rightarrow> (string \<times> string) list" where
  "forEach_key [] sp = sp"
| "forEach_key ((key, v) # params) sp =
     forEach_key params
       (if v \<noteq> JUndefined \<and> v \<noteq> JNull then sp @ [(key, js_string v)] else sp)"

definition makeRequest_url :: "string \<Rightarrow> string \<Rightarrow> (string \<times> jsval) list \<Rightarrow> string \<Rightarrow> url" where
  "makeRequest_url apiKey endpoint params method =
     (let u = \<lparr>address = baseUrl @ endpoint, searchParams = []\<rparr>
      in if method = ''GET''
         then u\<lparr>searchParams := forEach_key params (searchParams u @ [(''api_key'', apiKey)])\<rparr>
         else u)"

subsection \<open>\<open>createUtils.getImageUrl\<close>\<close>

text \<open>
  The size \<open>sz\<close> is \<open>None\<close> when the argument is omitted (the default \<open>'w500'\<close> applies); the result
  \<open>None\<close> is the \<open>null\<close> the function returns for a falsy path.
\<close>

definition getImageUrl :: "jsval \<Rightarrow> string option \<Rightarrow> string option" where
  "getImageUrl path sz =
     (let sz = (case sz of None \<Rightarrow> ''w500'' | Some s \<Rightarrow> s)
      in if \<not> truthy path then None
         else Some (imageBaseUrl @ ''/'' @ sz @ js_string path))"

subsection \<open>The two calls the store's thunks make\<close>

text \<open>
  What the network answers is not part of the program: a thunk is modelled for every
  behaviour of the client, given as the result of each call (\<open>Inl\<close> the error the returned
  promise rejects with, \<open>Inr\<close> the parsed JSON). A page of reviews has the shape the thunks
  read: \<open>results\<close>, \<open>page\<close> and \<open>total_pages\<close>.
\<close>

type_synonym movie_id = nat

record reviews_response =
  results :: "jsval list"
  r_page :: int
  total_pages :: int

record tmdb =
  getMovieDetails :: "movie_id \<Rightarrow> string \<Rightarrow> string \<Rightarrow> js_error + jsval"
  getMovieReviews :: "movie_id \<Rightarrow> int \<Rightarrow> js_error + reviews_response"

section \<open>The movie cache (\<open>movieCacheReducer\<close> and its actions)\<close>

definition CACHE_DURATION :: int where
  "CACHE_DURATION = 3600000"

text \<open>
  The action creators \<open>fetchMovieDetailRequest\<close>, \<open>fetchMovieDetailSuccess\<close>,
  \<open>fetchMovieDetailFailure\<close>, \<open>clearMovieCache\<close> and \<open>removeFromCache\<close> build an object with a
  \<open>type\<close> and a payload: a constructor (the type) applied to the payload's fields. Any
  other action is \<open>OTHER_CACHE_ACTION\<close>.
\<close>

datatype cache_action =
    FETCH_MOVIE_DETAIL_REQUEST movie_id
  | FETCH_MOVIE_DETAIL_SUCCESS movie_id jsval
  | FETCH_MOVIE_DETAIL_FAILURE movie_id string
  | CLEAR_MOVIE_CACHE
  | REMOVE_FROM_CACHE movie_id
  | OTHER_CACHE_ACTION

record cache_state =
  details :: "movie_id \<rightharpoonup> jsval"
  lastFetched :: "movie_id \<rightharpoonup> int"
  loading :: "movie_id \<rightharpoonup> bool"
  error :: "string option"

definition movieCache_initialState :: cache_state where
  "movieCache_initialState =
     \<lparr>details = Map.empty, lastFetched = Map.empty, loading = Map.empty, error = None\<rparr>"

text \<open>The reducer; \<open>now\<close> is what \<open>Date.now()\<close> returns while the action is reduced.\<close>

fun movieCacheReducer :: "int \<Rightarrow> cache_state \<Rightarrow> cache_action \<Rightarrow> cache_state" where
  "movieCacheReducer now state (FETCH_MOVIE_DETAIL_REQUEST movieId) =
     state\<lparr>loading := (loading state)(movieId \<mapsto> True), error := None\<rparr>"
| "movieCacheReducer now state (FETCH_MOVIE_DETAIL_SUCCESS movieId data) =
     state\<lparr>details := (details state)(movieId \<mapsto> JNum now),
           loading := (loading state)(movieId \<mapsto> False)\<rparr>"
| "movieCacheReducer now state (FETCH_MOVIE_DETAIL_FAILURE movieId err) =
     state\<lparr>loading := (loading state)(movieId \<mapsto> False), error := Some err\<rparr>"
| "movieCacheReducer now state CLEAR_MOVIE_CACHE =
     state\<lparr>details := Map.empty, lastFetched := Map.empty\<rparr>"
| "movieCacheReducer now state (REMOVE_FROM_CACHE movieId) =
     state\<lparr>details := (details state)(movieId := None),
           lastFetched := (lastFetched state)(movieId := None)\<rparr>"
| "movieCacheReducer now state OTHER_CACHE_ACTION = state"

text \<open>The store reduces the actions a thunk dispatches, in order.\<close>

definition dispatchAll :: "int \<Rightarrow> cache_state \<Rightarrow> cache_action list \<Rightarrow> cache_state" where
  "dispatchAll now state acts = foldl (movieCacheReducer now) state acts"

subsection \<open>The thunk \<open>fetchMovieDetail\<close>\<close>

text \<open>
  The thunk's parameters are \<open>(dispatchEvent, getState)\<close>, and its body calls \<open>dispatch\<close>: a
  name that the module neither declares nor imports, so it is looked up in the global
  environment when the call is reached. \<open>Unbound\<close>: there is no such global (nothing in this
  repository defines one) and evaluating the name throws a \<open>ReferenceError\<close>.
  \<open>StoreDispatch\<close>: the name denotes the store's \<open>dispatch\<close>. Every statement below about the
  thunk is made for both.
\<close>

datatype binding = Unbound | StoreDispatch

definition dispatch_not_defined :: js_error where
  "dispatch_not_defined = JsError ''ReferenceError'' ''dispatch is not defined''"

text \<open>
  An \<open>async\<close> function runs up to its first \<open>await\<close> when it is called. \<open>Return\<close> and \<open>Throw\<close>:
  it finished before any \<open>await\<close>. \<open>Await_getMovieDetails\<close>: it has called
  \<open>tmdb.getMovieDetails\<close> with these arguments (one network request) and waits for it.
\<close>

datatype step = Return jsval | Throw js_error | Await_getMovieDetails movie_id string string

text \<open>\<open>Date.now() - lastFetched < CACHE_DURATION\<close>; with \<open>lastFetched\<close> undefined the difference
  is \<open>NaN\<close>, and every comparison with \<open>NaN\<close> is false.\<close>

definition within_duration :: "int \<Rightarrow> int option \<Rightarrow> bool" where
  "within_duration now lastF =
     (case lastF of None \<Rightarrow> False | Some t \<Rightarrow> now - t < CACHE_DURATION)"

text \<open>From the call to the first \<open>await\<close>: the outcome and the actions dispatched.\<close>

definition fetchMovieDetail_start ::
  "binding \<Rightarrow> int \<Rightarrow> cache_state \<Rightarrow> movie_id \<Rightarrow> bool \<Rightarrow> step \<times> cache_action list" where
  "fetchMovieDetail_start dispatch now state movieId forceRefresh =
     (let cached = (case details state movieId of None \<Rightarrow> JUndefined | Some v \<Rightarrow> v);
          lastF = lastFetched state movieId
      in if \<not> forceRefresh \<and> truthy cached \<and> within_duration now lastF
         then (Return cached, [])
         else (case dispatch of
                 Unbound \<Rightarrow> (Throw dispatch_not_defined, [])
               | StoreDispatch \<Rightarrow>
                   (Await_getMovieDetails movieId ''ko-KR'' ''credits,videos,images'',
                    [FETCH_MOVIE_DETAIL_REQUEST movieId])))"

text \<open>
  From the settling of the request to the end: the \<open>try\<close> block after the \<open>await\<close>, and the
  \<open>catch\<close> block. The result is what the thunk's promise settles with.
\<close>

definition fetchMovieDetail_resume ::
  "binding \<Rightarrow> movie_id \<Rightarrow> js_error + jsval \<Rightarrow> (js_error + jsval) \<times> cache_action list" where
  "fetchMovieDetail_resume dispatch movieId response =
     (case dispatch of
        Unbound \<Rightarrow> (Inl dispatch_not_defined, [])
      | StoreDispatch \<Rightarrow>
          (case response of
             Inr data \<Rightarrow> (Inr data, [FETCH_MOVIE_DETAIL_SUCCESS movieId data])
           | Inl err \<Rightarrow> (Inl err, [FETCH_MOVIE_DETAIL_FAILURE movieId (message err)])))"

text \<open>
  One call on its own, with nothing else dispatched in between: called at \<open>t0\<close>, the request
  settling at \<open>t1\<close>.
\<close>

definition fetchMovieDetail ::
  "binding \<Rightarrow> tmdb \<Rightarrow> int \<Rightarrow> int \<Rightarrow> cache_state \<Rightarrow> movie_id \<Rightarrow> bool
     \<Rightarrow> (js_error + jsval) \<times> cache_state" where
  "fetchMovieDetail dispatch api t0 t1 state movieId forceRefresh =
     (case fetchMovieDetail_start dispatch t0 state movieId forceRefresh of
        (Return v, acts) \<Rightarrow> (Inr v, dispatchAll t0 state acts)
      | (Throw e, acts) \<Rightarrow> (Inl e, dispatchAll t0 state acts)
      | (Await_getMovieDetails i lang app, acts) \<Rightarrow>
          (let (r, acts') = fetchMovieDetail_resume dispatch movieId (getMovieDetails api i lang app)
           in (r, dispatchAll t1 (dispatchAll t0 state acts) acts')))"

text \<open>
  Several calls issued before any request settles: each is a triple of the time of the call,
  the movie and \<open>forceRefresh\<close>; each runs to its first \<open>await\<close> on the state the earlier ones
  left. The result lists the outcome of every call.
\<close>

fun issue :: "binding \<Rightarrow> cache_state \<Rightarrow> (int \<times> movie_id \<times> bool) list \<Rightarrow> step list \<times> cache_state" where
  "issue dispatch state [] = ([], state)"
| "issue dispatch state ((now, movieId, forceRefresh) # calls) =
     (let (out, acts) = fetchMovieDetail_start dispatch now state movieId forceRefresh;
          (outs, state') = issue dispatch (dispatchAll now state acts) calls
      in (out # outs, state'))"

text \<open>The number of network requests for a movie among the outcomes.\<close>

fun requests_for :: "movie_id \<Rightarrow> step \<Rightarrow> bool" where
  "requests_for k (Await_getMovieDetails i lang app) = (i = k)"
| "requests_for k (Return v) = False"
| "requests_for k (Throw e) = False"

definition networkCalls :: "movie_id \<Rightarrow> step list \<Rightarrow> nat" where
  "networkCalls k outs = length (filter (requests_for k) outs)"

section \<open>The movie details store (\<open>movieDetailsReducer\<close> and its actions)\<close>

text \<open>
  The payload of \<open>FETCH_MORE_REVIEWS_SUCCESS\<close> as \<open>fetchMoreReviews\<close> builds it, and the payload
  of \<open>FETCH_MOVIE_FULL_DETAILS_SUCCESS\<close> as \<open>fetchMovieFullDetails\<close> builds it (the spread
  movie details, then \<open>reviews\<close> and \<open>reviewsTotalPages\<close>). The failure actions carry
  \<open>error.message\<close>.
\<close>

record more_reviews_payload =
  p_movieId :: movie_id
  p_reviews :: "jsval list"
  p_page :: int
  p_totalPages :: int

record full_details_payload =
  fp_movieDetails :: jsval
  fp_reviews :: "jsval list"
  fp_reviewsTotalPages :: int

datatype details_action =
    FETCH_MOVIE_FULL_DETAILS_REQUEST
  | FETCH_MOVIE_FULL_DETAILS_SUCCESS full_details_payload
  | FETCH_MOVIE_FULL_DETAILS_FAILURE string
  | FETCH_MORE_REVIEWS_REQUEST
  | FETCH_MORE_REVIEWS_SUCCESS more_reviews_payload
  | FETCH_MORE_REVIEWS_FAILURE string
  | CLEAR_CURRENT_MOVIE
  | OTHER_DETAILS_ACTION

text \<open>
  A stored page record. \<open>totalPages\<close> is \<open>None\<close> when the property holds \<open>undefined\<close>.
\<close>

record paged =
  items :: "jsval list"
  page :: int
  totalPages :: "int option"

text \<open>
  The keys of the \<open>reviews\<close> object are property names: \<open>Some i\<close> is the name a movie
  identifier converts to, \<open>None\<close> the name \<open>undefined\<close> converts to. \<open>reviesLoading\<close> is the
  property the \<open>FETCH_MORE_REVIEWS_REQUEST\<close> case writes; the initial state has no such
  property (\<open>None\<close>).
\<close>

record details_state =
  current :: "more_reviews_payload option"
  reviews :: "movie_id option \<rightharpoonup> paged"
  md_loading :: bool
  reviewsLoading :: bool
  md_error :: "string option"
  reviesLoading :: "bool option"

definition movieDetails_initialState :: details_state where
  "movieDetails_initialState =
     \<lparr>current = None, reviews = Map.empty, md_loading = False, reviewsLoading = False,
      md_error = None, reviesLoading = None\<rparr>"

text \<open>
  Two property reads of the first \<open>FETCH_MORE_REVIEWS_SUCCESS\<close> case: the payload has neither
  an \<open>id\<close> nor a \<open>reviewsTotalPages\<close> property, so both reads give \<open>undefined\<close>.
\<close>

definition payload_id :: "more_reviews_payload \<Rightarrow> movie_id option" where
  "payload_id pl = None"

definition payload_reviewsTotalPages :: "more_reviews_payload \<Rightarrow> int option" where
  "payload_reviewsTotalPages pl = None"

text \<open>
  The body of the second \<open>case FETCH_MORE_REVIEWS_SUCCESS\<close> of the \<open>switch\<close>: the stored items
  of the movie (or the empty array) followed by the new ones.
\<close>

definition appendReviews :: "details_state \<Rightarrow> more_reviews_payload \<Rightarrow> details_state" where
  "appendReviews state pl =
     (let movieId = p_movieId pl;
          existingReviews = (case reviews state (Some movieId) of None \<Rightarrow> [] | Some r \<Rightarrow> items r)
      in state\<lparr>reviews := (reviews state)(Some movieId \<mapsto>
                  \<lparr>items = existingReviews @ p_reviews pl, page = p_page pl,
                   totalPages = Some (p_totalPages pl)\<rparr>),
               reviewsLoading := False\<rparr>)"

text \<open>
  The reducer, case by case in the order of the \<open>switch\<close>. The \<open>switch\<close> has two cases labelled
  \<open>FETCH_MORE_REVIEWS_SUCCESS\<close> and none labelled \<open>FETCH_MOVIE_FULL_DETAILS_SUCCESS\<close>: a
  \<open>switch\<close> runs the first case whose label equals the action's type, so the second one
  (\<open>appendReviews\<close>) is never run, and \<open>FETCH_MOVIE_FULL_DETAILS_SUCCESS\<close> falls to \<open>default\<close>.
\<close>

fun movieDetailsReducer :: "details_state \<Rightarrow> details_action \<Rightarrow> details_state" where
  "movieDetailsReducer state FETCH_MOVIE_FULL_DETAILS_REQUEST =
     state\<lparr>md_loading := True, md_error := None\<rparr>"
| "movieDetailsReducer state (FETCH_MORE_REVIEWS_SUCCESS pl) =
     state\<lparr>current := Some pl,
           reviews := (reviews state)(payload_id pl \<mapsto>
              \<lparr>items = p_reviews pl, page = 1, totalPages = payload_reviewsTotalPages pl\<rparr>),
           md_loading := False\<rparr>"
| "movieDetailsReducer state (FETCH_MOVIE_FULL_DETAILS_FAILURE err) =
     state\<lparr>md_loading := False, md_error := Some err\<rparr>"
| "movieDetailsReducer state FETCH_MORE_REVIEWS_REQUEST =
     state\<lparr>reviesLoading := Some True\<rparr>"
| "movieDetailsReducer state (FETCH_MORE_REVIEWS_FAILURE err) =
     state\<lparr>reviewsLoading := False\<rparr>"
| "movieDetailsReducer state CLEAR_CURRENT_MOVIE =
     state\<lparr>current := None\<rparr>"
| "movieDetailsReducer state (FETCH_MOVIE_FULL_DETAILS_SUCCESS pl) = state"
| "movieDetailsReducer state OTHER_DETAILS_ACTION = state"

subsection \<open>The thunks \<open>fetchMovieFullDetails\<close> and \<open>fetchMoreReviews\<close>\<close>

text \<open>
  Both take the store's \<open>dispatch\<close> as their parameter. Each is given with the result its
  promise settles with and the actions it dispatches, in order; neither has a \<open>return\<close>
  statement, so a run that ends normally resolves with \<open>undefined\<close>.
\<close>

definition fetchMovieFullDetails :: "tmdb \<Rightarrow> movie_id \<Rightarrow> (js_error + jsval) \<times> details_action list" where
  "fetchMovieFullDetails api movieId =
     (case getMovieDetails api movieId ''ko-KR'' ''credits,videos,images,keywords,release_dates'' of
        Inl err \<Rightarrow>
          (Inr JUndefined,
           [FETCH_MOVIE_FULL_DETAILS_REQUEST, FETCH_MOVIE_FULL_DETAILS_FAILURE (message err)])
      | Inr movieDetails \<Rightarrow>
          (case getMovieReviews api movieId 1 of
             Inl err \<Rightarrow>
               (Inr JUndefined,
                [FETCH_MOVIE_FULL_DETAILS_REQUEST, FETCH_MOVIE_FULL_DETAILS_FAILURE (message err)])
           | Inr rv \<Rightarrow>
               (Inr JUndefined,
                [FETCH_MOVIE_FULL_DETAILS_REQUEST,
                 FETCH_MOVIE_FULL_DETAILS_SUCCESS
                   \<lparr>fp_movieDetails = movieDetails, fp_reviews = results rv,
                    fp_reviewsTotalPages = total_pages rv\<rparr>])))"

definition fetchMoreReviews :: "tmdb \<Rightarrow> movie_id \<Rightarrow> int \<Rightarrow> (js_error + jsval) \<times> details_action list" where
  "fetchMoreReviews api movieId pg =
     (case getMovieReviews api movieId pg of
        Inl err \<Rightarrow>
          (Inr JUndefined, [FETCH_MORE_REVIEWS_REQUEST, FETCH_MORE_REVIEWS_FAILURE (message err)])
      | Inr response \<Rightarrow>
          (Inr JUndefined,
           [FETCH_MORE_REVIEWS_REQUEST,
            FETCH_MORE_REVIEWS_SUCCESS
              \<lparr>p_movieId = movieId, p_reviews = results response, p_page = r_page response,
               p_totalPages = total_pages response\<rparr>]))"

text \<open>The store reduces the dispatched actions in order.\<close>

definition reduceAll :: "details_state \<Rightarrow> details_action list \<Rightarrow> details_state" where
  "reduceAll state acts = foldl movieDetailsReducer state acts"

text \<open>
  Loading the pages of reviews of a movie one after the other: \<open>fetchMoreReviews\<close> is run for
  each page number of the list, every request answered with the page asked for.
\<close>

fun loadPages :: "tmdb \<Rightarrow> movie_id \<Rightarrow> int list \<Rightarrow> details_state \<Rightarrow> details_state" where
  "loadPages api movieId [] state = state"
| "loadPages api movieId (pg # pgs) state =
     loadPages api movieId pgs (reduceAll state (snd (fetchMoreReviews api movieId pg)))"

section \<open>Sample inputs\<close>

text \<open>
  Concrete inputs for the evaluations below: a movie record, an HTTP failure as
  \<open>makeRequest\<close> throws it, a client that answers every request (each page of reviews holding
  one item, the page number, out of three pages) and a client whose every request fails.
\<close>

definition sample_movie :: jsval where
  "sample_movie = JObj [(''id'', JNum 7), (''title'', JStr ''Dune'')]"

definition http_500 :: js_error where
  "http_500 = JsError ''Error'' ''HTTP error! status: 500''"

definition answering_api :: tmdb where
  "answering_api =
     \<lparr>getMovieDetails = (\<lambda>i lang app. Inr sample_movie),
      getMovieReviews = (\<lambda>i pg. Inr \<lparr>results = [JNum pg], r_page = pg, total_pages = 3\<rparr>)\<rparr>"

definition failing_api :: tmdb where
  "failing_api =
     \<lparr>getMovieDetails = (\<lambda>i lang app. Inl http_500),
      getMovieReviews = (\<lambda>i pg. Inl http_500)\<rparr>"

text \<open>A cache that holds an entry for movie 7, fetched at time 0.\<close>

definition stale_state :: cache_state where
  "stale_state =
     \<lparr>details = [7 \<mapsto> JStr ''old''], lastFetched = [7 \<mapsto> 0], loading = Map.empty, error = None\<rparr>"



text \<open>A history of the cache: actions, each with the time at which it is reduced.\<close>

definition reduceTimed :: "cache_state \<Rightarrow> (int \<times> cache_action) list \<Rightarrow> cache_state" where
  "reduceTimed state tas = foldl (\<lambda>s (now, a). movieCacheReducer now s a) state tas"

section \<open>Image URLs\<close>

text \<open>
  C9. For every size, \<open>getImageUrl\<close> returns \<open>null\<close> for an absent or falsy path, and for a
  non-empty path \<open>p\<close> exactly the image base, a slash, the size and \<open>p\<close>.
\<close>

theorem getImageUrl_spec:
  "(\<not> truthy path \<longrightarrow> getImageUrl path (Some s) = None) \<and>
   (p \<noteq> [] \<longrightarrow> getImageUrl (JStr p) (Some s) = Some (imageBaseUrl @ ''/'' @ s @ p))"
  by (simp add: getImageUrl_def)

theorem getImageUrl_spec_witness:
  "\<not> truthy JNull \<and> getImageUrl JNull (Some ''w500'') = None \<and>
   ''/abc.jpg'' \<noteq> [] \<and>
   getImageUrl (JStr ''/abc.jpg'') (Some ''w500'') = Some ''https://image.tmdb.org/t/p/w500/abc.jpg''"
  using getImageUrl_spec [of JNull "''w500''" "''/abc.jpg''"]
  by (simp add: imageBaseUrl_def)

section \<open>Query parameters of a GET request\<close>

lemma forEach_key_eq:
  "forEach_key params sp =
     sp @ map (\<lambda>(k, v). (k, js_string v)) (filter (\<lambda>(k, v). v \<noteq> JUndefined \<and> v \<noteq> JNull) params)"
  by (induction params arbitrary: sp) auto

text \<open>
  C8. For a GET request the search parameters are the \<open>api_key\<close> followed by the parameters
  whose value is neither \<open>undefined\<close> nor \<open>null\<close>, each with its value converted to a string:
  a name that only has such values does not occur in the URL at all (neither with an empty
  value nor with the text \<open>null\<close>), and every other parameter does.
\<close>

theorem makeRequest_url_GET:
  "searchParams (makeRequest_url apiKey endpoint params ''GET'') =
     (''api_key'', apiKey) #
       map (\<lambda>(k, v). (k, js_string v)) (filter (\<lambda>(k, v). v \<noteq> JUndefined \<and> v \<noteq> JNull) params) \<and>
   (\<forall>k. k \<noteq> ''api_key'' \<and> (\<forall>v. (k, v) \<in> set params \<longrightarrow> v = JUndefined \<or> v = JNull)
         \<longrightarrow> k \<notin> fst ` set (searchParams (makeRequest_url apiKey endpoint params ''GET''))) \<and>
   (\<forall>k v. (k, v) \<in> set params \<and> v \<noteq> JUndefined \<and> v \<noteq> JNull
         \<longrightarrow> (k, js_string v) \<in> set (searchParams (makeRequest_url apiKey endpoint params ''GET'')))"
  by (force simp: makeRequest_url_def forEach_key_eq)

theorem makeRequest_url_GET_witness:
  "searchParams (makeRequest_url ''KEY'' ''/search/movie''
      [(''query'', JStr ''dune''), (''page'', JNum 1), (''region'', JNull), (''year'', JUndefined)] ''GET'')
     = [(''api_key'', ''KEY''), (''query'', ''dune''), (''page'', ''1'')] \<and>
   ''region'' \<notin> fst ` set (searchParams (makeRequest_url ''KEY'' ''/search/movie''
      [(''query'', JStr ''dune''), (''page'', JNum 1), (''region'', JNull), (''year'', JUndefined)] ''GET''))"
  using makeRequest_url_GET [of "''KEY''" "''/search/movie''"
      "[(''query'', JStr ''dune''), (''page'', JNum 1), (''region'', JNull), (''year'', JUndefined)]"]
  by (simp add: number_string_def digit_char_def)

section \<open>Concurrent calls of \<open>fetchMovieDetail\<close>\<close>

lemma start_reads_cache_only:
  "details s' = details s \<Longrightarrow> lastFetched s' = lastFetched s \<Longrightarrow>
   fetchMovieDetail_start d now s' k fr = fetchMovieDetail_start d now s k fr"
  by (simp add: fetchMovieDetail_start_def)

lemma start_keeps_cache:
  "details (dispatchAll t s (snd (fetchMovieDetail_start d now s k fr))) = details s \<and>
   lastFetched (dispatchAll t s (snd (fetchMovieDetail_start d now s k fr))) = lastFetched s"
  by (simp add: fetchMovieDetail_start_def dispatchAll_def Let_def split: binding.splits)

lemma issue_from_equal_cache:
  "details s' = details s \<Longrightarrow> lastFetched s' = lastFetched s \<Longrightarrow>
   fst (issue d s' calls) = map (\<lambda>(now, k, fr). fst (fetchMovieDetail_start d now s k fr)) calls"
proof (induction calls arbitrary: s')
  case Nil
  then show ?case by simp
next
  case (Cons c calls)
  obtain now k fr where c: "c = (now, k, fr)" by (cases c) auto
  let ?s1 = "dispatchAll now s' (snd (fetchMovieDetail_start d now s' k fr))"
  have "details ?s1 = details s" "lastFetched ?s1 = lastFetched s"
    using Cons.prems start_keeps_cache [of now s' d now k fr] by simp_all
  then have "fst (issue d ?s1 calls) =
      map (\<lambda>(now, k, fr). fst (fetchMovieDetail_start d now s k fr)) calls"
    by (rule Cons.IH)
  moreover have "fetchMovieDetail_start d now s' k fr = fetchMovieDetail_start d now s k fr"
    using Cons.prems by (rule start_reads_cache_only)
  ultimately show ?case
    by (simp add: c case_prod_beta)
qed

text \<open>
  C1, as the code has it. The thunk keeps no table of requests in flight and never reads the
  \<open>loading\<close> flags: of the calls issued before any request settles, each one does exactly
  what it would do as the only call on the state the first one found, returning the cached
  value or going on to its own request. Calls that are not served from the cache are
  therefore not collapsed into one.
\<close>

theorem issue_each_as_alone:
  "fst (issue d s calls) = map (\<lambda>(now, k, fr). fst (fetchMovieDetail_start d now s k fr)) calls"
  by (rule issue_from_equal_cache) simp_all

text \<open>
  Two calls for movie 7 on the empty cache, the second issued before the first request
  settles: with \<open>dispatch\<close> the store's, two requests go out; with \<open>dispatch\<close> unbound, none
  does. In neither case exactly one.
\<close>

theorem two_calls_counterexample:
  "networkCalls 7 (fst (issue StoreDispatch movieCache_initialState [(1000, 7, False), (1001, 7, False)])) = 2 \<and>
   networkCalls 7 (fst (issue Unbound movieCache_initialState [(1000, 7, False), (1001, 7, False)])) = 0"
  by (simp add: networkCalls_def fetchMovieDetail_start_def movieCache_initialState_def
        dispatchAll_def within_duration_def Let_def)

section \<open>What a successful fetch leaves in the cache\<close>

lemma reducer_lastFetched_dom:
  "lastFetched s k = None \<Longrightarrow> lastFetched (movieCacheReducer now s a) k = None"
  by (cases a) simp_all

lemma reduceTimed_lastFetched:
  "lastFetched s k = None \<Longrightarrow> lastFetched (reduceTimed s tas) k = None"
  unfolding reduceTimed_def
  by (induction tas arbitrary: s) (auto simp: reducer_lastFetched_dom)

lemma start_without_lastFetched:
  "lastFetched s k = None \<Longrightarrow> fst (fetchMovieDetail_start d now s k fr) \<noteq> Return v"
  by (simp add: fetchMovieDetail_start_def within_duration_def split: binding.splits)

text \<open>
  No case of the reducer writes \<open>lastFetched\<close>, so after any history that starts from the
  initial state no call is served from the cache.
\<close>

lemma cache_never_read:
  "fst (fetchMovieDetail_start d now (reduceTimed movieCache_initialState tas) k fr) \<noteq> Return v"
  by (rule start_without_lastFetched, rule reduceTimed_lastFetched)
     (simp add: movieCache_initialState_def)

text \<open>
  C2, evaluated. A fetch for movie 7 succeeds at time 1000; a second fetch at time 2000, well
  within \<open>CACHE_DURATION\<close> and without \<open>forceRefresh\<close>, does not return the cached value: it
  issues a new request (and with \<open>dispatch\<close> unbound it throws, on the state the
  \<open>FETCH_MOVIE_DETAIL_SUCCESS\<close> action leaves).
\<close>

theorem fetch_after_success_not_cached:
  "2000 - 1000 < CACHE_DURATION \<and>
   fst (fetchMovieDetail_start StoreDispatch 2000
         (snd (fetchMovieDetail StoreDispatch answering_api 900 1000 movieCache_initialState 7 False))
         7 False)
     = Await_getMovieDetails 7 ''ko-KR'' ''credits,videos,images'' \<and>
   fst (fetchMovieDetail_start Unbound 2000
         (movieCacheReducer 1000 movieCache_initialState (FETCH_MOVIE_DETAIL_SUCCESS 7 sample_movie))
         7 False)
     = Throw dispatch_not_defined"
  by (simp add: CACHE_DURATION_def fetchMovieDetail_def fetchMovieDetail_start_def
        fetchMovieDetail_resume_def movieCache_initialState_def dispatchAll_def
        within_duration_def answering_api_def Let_def)

text \<open>
  C3, evaluated. Reducing \<open>FETCH_MOVIE_DETAIL_SUCCESS\<close> for movie 7 at time 1000 stores the
  number 1000 under \<open>details[7]\<close>, not the fetched record, and leaves \<open>lastFetched[7]\<close> unset;
  so does the whole fetch, whose caller does receive the record.
\<close>

theorem success_stores_timestamp:
  "details (movieCacheReducer 1000 movieCache_initialState (FETCH_MOVIE_DETAIL_SUCCESS 7 sample_movie)) 7
     = Some (JNum 1000) \<and>
   lastFetched (movieCacheReducer 1000 movieCache_initialState (FETCH_MOVIE_DETAIL_SUCCESS 7 sample_movie)) 7
     = None \<and>
   JNum 1000 \<noteq> sample_movie \<and>
   fst (fetchMovieDetail StoreDispatch answering_api 900 1000 movieCache_initialState 7 False)
     = Inr sample_movie \<and>
   details (snd (fetchMovieDetail StoreDispatch answering_api 900 1000 movieCache_initialState 7 False)) 7
     = Some (JNum 1000) \<and>
   lastFetched (snd (fetchMovieDetail StoreDispatch answering_api 900 1000 movieCache_initialState 7 False)) 7
     = None"
  by (simp add: fetchMovieDetail_def fetchMovieDetail_start_def
        fetchMovieDetail_resume_def movieCache_initialState_def dispatchAll_def
        within_duration_def answering_api_def Let_def sample_movie_def)

section \<open>A failed fetch and the cache\<close>

lemma resume_failure_actions:
  "isl (fst (fetchMovieDetail_resume d k r)) \<Longrightarrow>
   details (dispatchAll t s (snd (fetchMovieDetail_resume d k r))) = details s \<and>
   lastFetched (dispatchAll t s (snd (fetchMovieDetail_resume d k r))) = lastFetched s"
  by (auto simp: fetchMovieDetail_resume_def dispatchAll_def split: binding.splits sum.splits)

text \<open>
  C6. When a fetch fails (its promise rejects), the cache is as it was before the call: every
  entry of \<open>details\<close> and of \<open>lastFetched\<close> is unchanged and can still be looked up. The
  \<open>FETCH_MOVIE_DETAIL_FAILURE\<close> transition itself writes neither.
\<close>

theorem failure_preserves_cache:
  assumes "isl (fst (fetchMovieDetail d api t0 t1 state k fr))"
  shows "details (snd (fetchMovieDetail d api t0 t1 state k fr)) = details state \<and>
         lastFetched (snd (fetchMovieDetail d api t0 t1 state k fr)) = lastFetched state \<and>
         details (movieCacheReducer now state (FETCH_MOVIE_DETAIL_FAILURE k err)) = details state \<and>
         lastFetched (movieCacheReducer now state (FETCH_MOVIE_DETAIL_FAILURE k err)) = lastFetched state"
proof -
  obtain out acts where st: "fetchMovieDetail_start d t0 state k fr = (out, acts)"
    by (cases "fetchMovieDetail_start d t0 state k fr")
  have keep: "details (dispatchAll t0 state acts) = details state"
             "lastFetched (dispatchAll t0 state acts) = lastFetched state"
    using start_keeps_cache [of t0 state d t0 k fr] st by simp_all
  show ?thesis
  proof (cases out)
    case (Return v)
    with assms st show ?thesis by (simp add: fetchMovieDetail_def)
  next
    case (Throw e)
    with st keep show ?thesis by (simp add: fetchMovieDetail_def)
  next
    case (Await_getMovieDetails i lang app)
    let ?r = "getMovieDetails api i lang app"
    have "isl (fst (fetchMovieDetail_resume d k ?r))"
      using assms st Await_getMovieDetails by (simp add: fetchMovieDetail_def case_prod_beta)
    from resume_failure_actions [OF this, of t1 "dispatchAll t0 state acts"] keep
    show ?thesis
      using st Await_getMovieDetails by (simp add: fetchMovieDetail_def case_prod_beta)
  qed
qed

theorem failure_preserves_cache_witness:
  "isl (fst (fetchMovieDetail StoreDispatch failing_api 4000000 4000100 stale_state 7 False)) \<and>
   details (snd (fetchMovieDetail StoreDispatch failing_api 4000000 4000100 stale_state 7 False)) 7
     = Some (JStr ''old'') \<and>
   lastFetched (snd (fetchMovieDetail StoreDispatch failing_api 4000000 4000100 stale_state 7 False)) 7
     = Some 0"
proof -
  have h: "isl (fst (fetchMovieDetail StoreDispatch failing_api 4000000 4000100 stale_state 7 False))"
    by (simp add: fetchMovieDetail_def fetchMovieDetail_start_def fetchMovieDetail_resume_def
          stale_state_def failing_api_def within_duration_def CACHE_DURATION_def Let_def)
  from failure_preserves_cache [OF h] h show ?thesis
    by (simp add: stale_state_def)
qed

section \<open>Errors of the remote client\<close>

text \<open>
  C7, as the code has it. \<open>fetchMoreReviews\<close> and \<open>fetchMovieFullDetails\<close> catch an error of
  the remote client, dispatch their failure action with the error's message, and their
  promise resolves with \<open>undefined\<close>. The \<open>catch\<close> block of \<open>fetchMovieDetail\<close> dispatches its
  failure action and throws the error again.
\<close>

theorem remote_error_handling:
  "(getMovieReviews api k pg = Inl e \<longrightarrow>
      fetchMoreReviews api k pg =
        (Inr JUndefined, [FETCH_MORE_REVIEWS_REQUEST, FETCH_MORE_REVIEWS_FAILURE (message e)])) \<and>
   (getMovieDetails api k ''ko-KR'' ''credits,videos,images,keywords,release_dates'' = Inl e \<longrightarrow>
      fetchMovieFullDetails api k =
        (Inr JUndefined, [FETCH_MOVIE_FULL_DETAILS_REQUEST, FETCH_MOVIE_FULL_DETAILS_FAILURE (message e)])) \<and>
   (getMovieDetails api k ''ko-KR'' ''credits,videos,images,keywords,release_dates'' = Inr d \<and>
    getMovieReviews api k 1 = Inl e \<longrightarrow>
      fetchMovieFullDetails api k =
        (Inr JUndefined, [FETCH_MOVIE_FULL_DETAILS_REQUEST, FETCH_MOVIE_FULL_DETAILS_FAILURE (message e)])) \<and>
   fetchMovieDetail_resume StoreDispatch k (Inl e) =
     (Inl e, [FETCH_MOVIE_DETAIL_FAILURE k (message e)])"
  by (simp add: fetchMoreReviews_def fetchMovieFullDetails_def fetchMovieDetail_resume_def)

theorem remote_error_handling_witness:
  "getMovieReviews failing_api 7 2 = Inl http_500 \<and>
   fetchMoreReviews failing_api 7 2 =
     (Inr JUndefined, [FETCH_MORE_REVIEWS_REQUEST, FETCH_MORE_REVIEWS_FAILURE ''HTTP error! status: 500'']) \<and>
   getMovieDetails failing_api 7 ''ko-KR'' ''credits,videos,images,keywords,release_dates'' = Inl http_500 \<and>
   fetchMovieFullDetails failing_api 7 =
     (Inr JUndefined, [FETCH_MOVIE_FULL_DETAILS_REQUEST,
                       FETCH_MOVIE_FULL_DETAILS_FAILURE ''HTTP error! status: 500''])"
  using remote_error_handling [of failing_api 7 2 http_500]
  by (simp add: failing_api_def http_500_def)

text \<open>
  With a client whose requests fail, the promises of \<open>fetchMoreReviews\<close> and of
  \<open>fetchMovieFullDetails\<close> resolve; they do not reject.
\<close>

theorem thunks_swallow_counterexample:
  "fst (fetchMoreReviews failing_api 7 2) = Inr JUndefined \<and>
   fst (fetchMovieFullDetails failing_api 7) = Inr JUndefined"
  by (simp add: fetchMoreReviews_def fetchMovieFullDetails_def failing_api_def)

section \<open>Pages of reviews\<close>

text \<open>
  What the unreachable second case would store: for payloads of one movie, the items already
  stored followed by the items of every payload in order, and the page of the last one.
\<close>

lemma appendReviews_same:
  "reviews (appendReviews s pl) (Some (p_movieId pl)) =
     Some \<lparr>items = (case reviews s (Some (p_movieId pl)) of None \<Rightarrow> [] | Some r \<Rightarrow> items r)
                      @ p_reviews pl,
           page = p_page pl, totalPages = Some (p_totalPages pl)\<rparr>"
  by (simp add: appendReviews_def Let_def)

lemma appendReviews_pages:
  assumes "\<forall>pl \<in> set pls. p_movieId pl = k" and "pls \<noteq> []"
  shows "reviews (foldl appendReviews s pls) (Some k) =
           Some \<lparr>items = (case reviews s (Some k) of None \<Rightarrow> [] | Some r \<Rightarrow> items r)
                            @ concat (map p_reviews pls),
                 page = p_page (last pls), totalPages = Some (p_totalPages (last pls))\<rparr>"
  using assms
proof (induction pls rule: rev_induct)
  case Nil
  then show ?case by simp
next
  case (snoc pl pls)
  show ?case
  proof (cases "pls = []")
    case True
    with snoc.prems appendReviews_same [of s pl] show ?thesis by simp
  next
    case False
    with snoc have "reviews (foldl appendReviews s pls) (Some k) =
           Some \<lparr>items = (case reviews s (Some k) of None \<Rightarrow> [] | Some r \<Rightarrow> items r)
                            @ concat (map p_reviews pls),
                 page = p_page (last pls), totalPages = Some (p_totalPages (last pls))\<rparr>"
      by simp
    with snoc.prems appendReviews_same [of "foldl appendReviews s pls" pl] show ?thesis by simp
  qed
qed

text \<open>
  C4, evaluated. Pages 1 and 2 of the reviews of movie 7 are loaded in order, starting from
  the initial state. Nothing is stored under the key of movie 7; the record under the key
  \<open>undefined\<close> holds the items of page 2 only, with page 1. The second case of the \<open>switch\<close>,
  run on the same two payloads, would store both pages' items in order and page 2.
\<close>

theorem load_two_pages:
  "reviews (loadPages answering_api 7 [1, 2] movieDetails_initialState) (Some 7) = None \<and>
   reviews (loadPages answering_api 7 [1, 2] movieDetails_initialState) None
     = Some \<lparr>items = [JNum 2], page = 1, totalPages = None\<rparr> \<and>
   reviews (foldl appendReviews movieDetails_initialState
       [\<lparr>p_movieId = 7, p_reviews = [JNum 1], p_page = 1, p_totalPages = 3\<rparr>,
        \<lparr>p_movieId = 7, p_reviews = [JNum 2], p_page = 2, p_totalPages = 3\<rparr>]) (Some 7)
     = Some \<lparr>items = [JNum 1, JNum 2], page = 2, totalPages = Some 3\<rparr>"
  by (simp add: fetchMoreReviews_def reduceAll_def answering_api_def movieDetails_initialState_def
        payload_id_def payload_reviewsTotalPages_def appendReviews_def)




section \<open>The loading flag of the reviews\<close>

lemma reducer_keeps_reviewsLoading_off:
  "\<not> reviewsLoading s \<Longrightarrow> \<not> reviewsLoading (movieDetailsReducer s a)"
  by (cases a) simp_all

lemma reduceAll_keeps_reviewsLoading_off:
  "\<not> reviewsLoading s \<Longrightarrow> \<not> reviewsLoading (reduceAll s acts)"
  unfolding reduceAll_def
  by (induction acts arbitrary: s) (simp_all add: reducer_keeps_reviewsLoading_off)

text \<open>
  C10. In every state reached from the initial state by any sequence of actions,
  \<open>reviewsLoading\<close> is false: \<open>FETCH_MORE_REVIEWS_REQUEST\<close> sets the property \<open>reviesLoading\<close>
  and leaves \<open>reviewsLoading\<close> as it is, and no case sets \<open>reviewsLoading\<close> to true.
\<close>

theorem reviewsLoading_never_on:
  "\<not> reviewsLoading (reduceAll movieDetails_initialState acts) \<and>
   reviesLoading (movieDetailsReducer state FETCH_MORE_REVIEWS_REQUEST) = Some True \<and>
   reviewsLoading (movieDetailsReducer state FETCH_MORE_REVIEWS_REQUEST) = reviewsLoading state"
  using reduceAll_keeps_reviewsLoading_off [of movieDetails_initialState acts]
  by (simp add: movieDetails_initialState_def)

end
